theory Spec2Isabelle
  imports Complex_Main
begin

section \<open>Data model (types/index.ts)\<close>

text \<open>
  An \<open>Address\<close> of the store. The source calls the first field \<open>id\<close>; it is named
  \<open>id_str\<close> here because \<open>id\<close> is the identity function of HOL. The optional numbers
  \<open>latitude?\<close> and \<open>longitude?\<close> are \<open>real option\<close> (\<open>None\<close> is \<open>undefined\<close>). The four
  flags are optional booleans in the interface, but every record is created by
  csvParser.ts with all four set to \<open>false\<close> and every later write assigns a boolean, so
  they are total booleans here.
\<close>

record Address =
  id_str :: string
  businessName :: string
  address :: string
  latitude :: "real option"
  longitude :: "real option"
  isSelected :: bool
  isOnRoute :: bool
  isDuplicate :: bool
  isHighlighted :: bool

text \<open>
  The \<open>StartingPoint\<close>; its fields \<open>address\<close>, \<open>latitude\<close>, \<open>longitude\<close> carry the prefix
  \<open>sp_\<close> to keep them apart from the fields of \<open>Address\<close>.
\<close>

record StartingPoint =
  sp_address :: string
  sp_latitude :: "real option"
  sp_longitude :: "real option"
  isValid :: bool

text \<open>
  The part of the \<open>useState\<close> cells of \<open>App\<close> that the handlers below read or write.
  The type \<open>'r\<close> stands for the opaque \<open>google.maps.DirectionsResult\<close>.
\<close>

record 'r app_state =
  addresses :: "Address list"
  startingPoint :: StartingPoint
  isGeocoding :: bool
  isGeocodingStart :: bool
  isCreatingRoute :: bool
  hasRoute :: bool
  currentRoute :: "'r option"
  mapKey :: nat

text \<open>
  The three workflow states of the route life cycle, read off the two flags
  \<open>isCreatingRoute\<close> and \<open>hasRoute\<close>.
\<close>

datatype workflow = Idle | Requested | Active

definition workflow_of :: "'r app_state \<Rightarrow> workflow" where
  "workflow_of s = (if isCreatingRoute s then Requested else if hasRoute s then Active else Idle)"

section \<open>JavaScript values\<close>

text \<open>
  Truthiness of an optional number, as in \<open>!addr.latitude\<close>: \<open>undefined\<close> and \<open>0\<close> are
  falsy. (\<open>NaN\<close> is falsy too; coordinates come from JSON numbers and are never \<open>NaN\<close>.)
\<close>

definition truthy :: "real option \<Rightarrow> bool" where
  "truthy v = (case v of None \<Rightarrow> False | Some x \<Rightarrow> x \<noteq> 0)"

text \<open>
  \<open>String.prototype.toLowerCase\<close> and \<open>String.prototype.trim\<close> on ASCII strings: the
  letters \<open>A\<close> to \<open>Z\<close> are mapped to \<open>a\<close> to \<open>z\<close>; white space is tab, line feed,
  vertical tab, form feed, carriage return and space. Letters and spaces beyond ASCII,
  which JavaScript also folds and strips, are outside this model; the facts about
  \<open>detectDuplicates\<close> below hold for any normalization.
\<close>

definition lower_char :: "char \<Rightarrow> char" where
  "lower_char c =
     (let n = (of_char c :: nat) in if 65 \<le> n \<and> n \<le> 90 then char_of (n + 32) else c)"

definition toLowerCase :: "string \<Rightarrow> string" where
  "toLowerCase str = map lower_char str"

definition isWhiteSpace :: "char \<Rightarrow> bool" where
  "isWhiteSpace c = ((of_char c :: nat) \<in> {9, 10, 11, 12, 13, 32})"

definition trim :: "string \<Rightarrow> string" where
  "trim str = rev (dropWhile isWhiteSpace (rev (dropWhile isWhiteSpace str)))"

text \<open>
  A non-negative integer inside a template literal, \<open>`${n}`\<close>: its decimal digits.
  \<open>read_nat\<close> reads such a numeral back.
\<close>

definition digit_char :: "nat \<Rightarrow> char" where
  "digit_char d = char_of (48 + d)"

fun show_nat :: "nat \<Rightarrow> string" where
  "show_nat n = (if n < 10 then [digit_char n] else show_nat (n div 10) @ [digit_char (n mod 10)])"

declare show_nat.simps [simp del]

definition read_nat :: "string \<Rightarrow> nat" where
  "read_nat str = foldl (\<lambda>acc c. 10 * acc + ((of_char c :: nat) - 48)) 0 str"

section \<open>The address store (App.tsx)\<close>

subsection \<open>detectDuplicates\<close>

definition norm_key :: "Address \<Rightarrow> string" where
  "norm_key addr = trim (toLowerCase (address addr))"

text \<open>
  One step of the \<open>forEach\<close> that fills \<open>addressMap\<close>: create the empty group when the key
  is new, then push the record onto the group of its key.
\<close>

definition group_step :: "Address \<Rightarrow> (string \<rightharpoonup> Address list) \<Rightarrow> (string \<rightharpoonup> Address list)" where
  "group_step addr addressMap =
     (let key = norm_key addr;
          m = (if addressMap key = None then addressMap(key \<mapsto> []) else addressMap)
      in case m key of
           Some bucket \<Rightarrow> m(key \<mapsto> bucket @ [addr])
         | None \<Rightarrow> m)"

definition build_addressMap :: "Address list \<Rightarrow> (string \<rightharpoonup> Address list)" where
  "build_addressMap addressList = fold group_step addressList Map.empty"

text \<open>
  The final \<open>map\<close>. The source reads \<open>addressMap.get(key)!.length\<close>; every key looked up
  was inserted by the loop above, so the \<open>None\<close> branch is never taken
  (lemma \<open>build_addressMap_lookup\<close>).
\<close>

definition detectDuplicates :: "Address list \<Rightarrow> Address list" where
  "detectDuplicates addressList =
     (let addressMap = build_addressMap addressList
      in map (\<lambda>addr. addr\<lparr>isDuplicate :=
                (case addressMap (norm_key addr) of
                   Some bucket \<Rightarrow> length bucket > 1
                 | None \<Rightarrow> False)\<rparr>) addressList)"

subsection \<open>Ingest, update, delete\<close>

text \<open>
  \<open>handleFileUpload\<close> and \<open>handleTabDelimitedSubmit\<close> differ only in the parser; both
  append the parsed rows and run \<open>detectDuplicates\<close> on the combined list.
\<close>

definition ingest :: "Address list \<Rightarrow> 'r app_state \<Rightarrow> 'r app_state" where
  "ingest parsedAddresses s =
     s\<lparr>addresses := detectDuplicates (addresses s @ parsedAddresses)\<rparr>"

text \<open>
  A \<open>Partial<Address>\<close>: for each field, \<open>None\<close> when the key is absent and \<open>Some v\<close> when
  the patch carries the value \<open>v\<close>.
\<close>

record AddressPatch =
  patch_id :: "string option"
  patch_businessName :: "string option"
  patch_address :: "string option"
  patch_latitude :: "real option option"
  patch_longitude :: "real option option"
  patch_isSelected :: "bool option"
  patch_isOnRoute :: "bool option"
  patch_isDuplicate :: "bool option"
  patch_isHighlighted :: "bool option"

definition orElse :: "'a option \<Rightarrow> 'a \<Rightarrow> 'a" where
  "orElse v d = (case v of Some x \<Rightarrow> x | None \<Rightarrow> d)"

text \<open>The object spread \<open>{ ...addr, ...updates }\<close>.\<close>

definition spread :: "Address \<Rightarrow> AddressPatch \<Rightarrow> Address" where
  "spread addr updates =
     \<lparr>id_str = orElse (patch_id updates) (id_str addr),
      businessName = orElse (patch_businessName updates) (businessName addr),
      address = orElse (patch_address updates) (address addr),
      latitude = orElse (patch_latitude updates) (latitude addr),
      longitude = orElse (patch_longitude updates) (longitude addr),
      isSelected = orElse (patch_isSelected updates) (isSelected addr),
      isOnRoute = orElse (patch_isOnRoute updates) (isOnRoute addr),
      isDuplicate = orElse (patch_isDuplicate updates) (isDuplicate addr),
      isHighlighted = orElse (patch_isHighlighted updates) (isHighlighted addr)\<rparr>"

text \<open>
  The patch \<open>{ [editingCell.field]: editValue }\<close> that \<open>handleCellSave\<close> of the table
  builds when the edited cell is the address.
\<close>

definition cell_patch_address :: "string \<Rightarrow> AddressPatch" where
  "cell_patch_address editValue =
     \<lparr>patch_id = None, patch_businessName = None, patch_address = Some editValue,
      patch_latitude = None, patch_longitude = None, patch_isSelected = None,
      patch_isOnRoute = None, patch_isDuplicate = None, patch_isHighlighted = None\<rparr>"

definition handleUpdateAddress :: "string \<Rightarrow> AddressPatch \<Rightarrow> 'r app_state \<Rightarrow> 'r app_state" where
  "handleUpdateAddress i updates s =
     s\<lparr>addresses := map (\<lambda>addr.
         if id_str addr = i
         then (spread addr updates)\<lparr>isHighlighted := False\<rparr>
         else addr\<lparr>isHighlighted := False\<rparr>) (addresses s)\<rparr>"

definition handleDeleteAddress :: "string \<Rightarrow> 'r app_state \<Rightarrow> 'r app_state" where
  "handleDeleteAddress i s =
     s\<lparr>addresses := filter (\<lambda>addr. id_str addr \<noteq> i) (addresses s)\<rparr>"

text \<open>The store operations a user can apply, and a run of them from a given state.\<close>

datatype store_op =
    Ingest "Address list"
  | Update string AddressPatch
  | Delete string

fun apply_store_op :: "store_op \<Rightarrow> 'r app_state \<Rightarrow> 'r app_state" where
  "apply_store_op (Ingest rows) s = ingest rows s"
| "apply_store_op (Update i updates) s = handleUpdateAddress i updates s"
| "apply_store_op (Delete i) s = handleDeleteAddress i s"

definition run_store_ops :: "store_op list \<Rightarrow> 'r app_state \<Rightarrow> 'r app_state" where
  "run_store_ops ops s = fold apply_store_op ops s"

text \<open>The initial state of \<open>App\<close>.\<close>

definition initial_state :: "'r app_state" where
  "initial_state =
     \<lparr>addresses = [],
      startingPoint = \<lparr>sp_address = ''6691 Frontier Dr, Springfield, VA 22150'',
                       sp_latitude = None, sp_longitude = None, isValid = False\<rparr>,
      isGeocoding = False,
      isGeocodingStart = False,
      isCreatingRoute = False,
      hasRoute = False,
      currentRoute = None,
      mapKey = 0\<rparr>"

text \<open>
  The property the \<open>isDuplicate\<close> flag is meant to have: at least two records of the list
  share the record's normalized key.
\<close>

definition sharesKey :: "Address list \<Rightarrow> Address \<Rightarrow> bool" where
  "sharesKey addressList addr =
     (length (filter (\<lambda>other. norm_key other = norm_key addr) addressList) \<ge> 2)"

section \<open>Region selection (MapComponent.tsx, App.tsx)\<close>

text \<open>
  A polygon is known only through \<open>google.maps.geometry.poly.containsLocation\<close>: the
  predicate telling whether the point with a given latitude and longitude lies inside.
\<close>

type_synonym polygon = "real \<Rightarrow> real \<Rightarrow> bool"

text \<open>The filter of \<open>handleAcceptPolygon\<close>.\<close>

definition insidePolygon :: "polygon \<Rightarrow> Address \<Rightarrow> bool" where
  "insidePolygon containsLocation addr =
     (if \<not> truthy (latitude addr) \<or> \<not> truthy (longitude addr) then False
      else case (latitude addr, longitude addr) of
             (Some lat, Some lng) \<Rightarrow> containsLocation lat lng
           | _ \<Rightarrow> False)"

definition handlePolygonComplete :: "Address list \<Rightarrow> 'r app_state \<Rightarrow> 'r app_state" where
  "handlePolygonComplete selected s =
     s\<lparr>addresses := map (\<lambda>addr.
         addr\<lparr>isSelected := list_ex (\<lambda>sel. id_str sel = id_str addr) selected,
              isHighlighted := list_ex (\<lambda>sel. id_str sel = id_str addr) selected\<rparr>) (addresses s)\<rparr>"

text \<open>
  \<open>handleAcceptPolygon\<close> returns at once when there is no pending polygon (or no map);
  otherwise it filters the addresses and hands the subset to \<open>onPolygonComplete\<close>.
\<close>

definition handleAcceptPolygon :: "polygon option \<Rightarrow> 'r app_state \<Rightarrow> 'r app_state" where
  "handleAcceptPolygon pendingPolygon s =
     (case pendingPolygon of
        None \<Rightarrow> s
      | Some containsLocation \<Rightarrow>
          handlePolygonComplete (filter (insidePolygon containsLocation) (addresses s)) s)"

section \<open>The starting point (App.tsx)\<close>

text \<open>
  What \<open>geocodeAddress\<close> (geocoding.ts) gives back: a location, \<open>null\<close>, or a thrown
  error (the API key is missing).
\<close>

datatype geocode_result = GeoFound real real | GeoNull | GeoThrows

definition handleStartingAddressChange :: "string \<Rightarrow> 'r app_state \<Rightarrow> 'r app_state" where
  "handleStartingAddressChange text s =
     s\<lparr>startingPoint := (startingPoint s)\<lparr>sp_address := text, isValid := False,
                                           sp_latitude := None, sp_longitude := None\<rparr>\<rparr>"

text \<open>
  The part of \<open>handleGeocodeStartingPoint\<close> after the \<open>await\<close>: the state updates are
  functional (\<open>prev => ...\<close>), so they apply to the state current at that moment.
\<close>

definition geocodeStartingPoint_settle :: "geocode_result \<Rightarrow> 'r app_state \<Rightarrow> string list \<times> 'r app_state" where
  "geocodeStartingPoint_settle result s =
     (case result of
        GeoFound lat lng \<Rightarrow>
          ([], s\<lparr>startingPoint := (startingPoint s)\<lparr>sp_latitude := Some lat,
                                                   sp_longitude := Some lng,
                                                   isValid := True\<rparr>,
                 isGeocodingStart := False\<rparr>)
      | GeoNull \<Rightarrow>
          ([''Could not geocode starting point address.''],
           s\<lparr>startingPoint := (startingPoint s)\<lparr>isValid := False\<rparr>, isGeocodingStart := False\<rparr>)
      | GeoThrows \<Rightarrow>
          ([''Error geocoding starting point.''],
           s\<lparr>startingPoint := (startingPoint s)\<lparr>isValid := False\<rparr>, isGeocodingStart := False\<rparr>))"

text \<open>
  The part of \<open>handleGeocodeStartingPoint\<close> before the \<open>await\<close>: nothing at all on an
  empty text; otherwise the busy flag is set and the adapter is called with the text
  the handler closed over.
\<close>

definition geocodeStartingPoint_begin :: "'r app_state \<Rightarrow> (string \<times> 'r app_state) option" where
  "geocodeStartingPoint_begin s =
     (if sp_address (startingPoint s) = [] then None
      else Some (sp_address (startingPoint s), s\<lparr>isGeocodingStart := True\<rparr>))"

text \<open>
  The whole handler. The parameter \<open>pending\<close> is what the other handlers do to the
  state while the adapter call is awaited (the text input is never disabled, so the user
  can edit meanwhile); \<open>\<lambda>s. s\<close> is a call that nothing interrupts. The result is the
  texts sent to the geocoding adapter, the alerts shown and the new state.
\<close>

definition handleGeocodeStartingPoint ::
  "(string \<Rightarrow> geocode_result) \<Rightarrow> ('r app_state \<Rightarrow> 'r app_state) \<Rightarrow> 'r app_state
     \<Rightarrow> string list \<times> string list \<times> 'r app_state" where
  "handleGeocodeStartingPoint geocodeAddress pending s =
     (case geocodeStartingPoint_begin s of
        None \<Rightarrow> ([], [], s)
      | Some (text, s1) \<Rightarrow>
          (case geocodeStartingPoint_settle (geocodeAddress text) (pending s1) of
             (alerts, s') \<Rightarrow> ([text], alerts, s')))"

definition handleClearStartingPoint :: "'r app_state \<Rightarrow> 'r app_state" where
  "handleClearStartingPoint s =
     s\<lparr>startingPoint := \<lparr>sp_address = [], sp_latitude = None, sp_longitude = None,
                          isValid = False\<rparr>\<rparr>"

section \<open>The route workflow (App.tsx, MapControls, MapComponent.tsx, routeService)\<close>

definition selectedAddresses :: "'r app_state \<Rightarrow> Address list" where
  "selectedAddresses s = filter isSelected (addresses s)"

definition msg_invalid_start :: string where
  "msg_invalid_start = ''Starting point is invalid or not geocoded.''"

definition msg_none_selected :: string where
  "msg_none_selected = ''Please select addresses by drawing a polygon on the map.''"

definition msg_limit_tail :: string where
  "msg_limit_tail = ''). Google Maps allows a maximum of 25 waypoints per route. Please reduce the number of selected addresses or split into multiple routes.''"

definition msg_too_many_addresses :: "nat \<Rightarrow> string" where
  "msg_too_many_addresses n = ''Too many addresses selected ('' @ show_nat n @ msg_limit_tail"

text \<open>\<open>handleCreateRoute\<close> returns the alerts it showed and the new state.\<close>

definition handleCreateRoute :: "'r app_state \<Rightarrow> string list \<times> 'r app_state" where
  "handleCreateRoute s =
     (if \<not> isValid (startingPoint s) then ([msg_invalid_start], s)
      else if length (selectedAddresses s) = 0 then ([msg_none_selected], s)
      else if length (selectedAddresses s) > 25
        then ([msg_too_many_addresses (length (selectedAddresses s))], s)
      else ([], s\<lparr>isCreatingRoute := True\<rparr>))"

text \<open>The \<open>disabled\<close> attribute of the create-route button in \<open>MapControls\<close>.\<close>

definition createRoute_disabled :: "'r app_state \<Rightarrow> bool" where
  "createRoute_disabled s =
     (\<not> isValid (startingPoint s) \<or> \<not> length (selectedAddresses s) > 0 \<or> isCreatingRoute s)"

text \<open>
  \<open>calculateOptimalRoute\<close>. The directions service is a parameter: given origin,
  destination and waypoints it calls back with a status and a result (or \<open>null\<close>).
  \<open>Inl\<close> carries the message of the \<open>Error\<close> the promise is rejected with.
\<close>

type_synonym latlng = "real \<times> real"

type_synonym 'r directionsService = "latlng \<Rightarrow> latlng \<Rightarrow> latlng list \<Rightarrow> string \<times> 'r option"

definition calculateOptimalRoute :: "latlng \<Rightarrow> latlng list \<Rightarrow> 'r directionsService \<Rightarrow> string + 'r" where
  "calculateOptimalRoute startPoint waypoints directionsService =
     (if length waypoints = 0 then Inl ''No waypoints provided''
      else case directionsService startPoint startPoint waypoints of
             (status, result) \<Rightarrow>
               (case result of
                  Some r \<Rightarrow> if status = ''OK'' then Inr r
                            else Inl (''Directions request failed: '' @ status)
                | None \<Rightarrow> Inl (''Directions request failed: '' @ status)))"

definition handleRouteCreated :: "'r \<Rightarrow> 'r app_state \<Rightarrow> 'r app_state" where
  "handleRouteCreated route s =
     s\<lparr>addresses := map (\<lambda>addr. addr\<lparr>isOnRoute := isSelected addr\<rparr>) (addresses s),
       currentRoute := Some route,
       hasRoute := True,
       isCreatingRoute := False\<rparr>"

definition onRouteCreationComplete :: "'r app_state \<Rightarrow> 'r app_state" where
  "onRouteCreationComplete s = s\<lparr>isCreatingRoute := False\<rparr>"

definition msg_too_many_waypoints :: "nat \<Rightarrow> string" where
  "msg_too_many_waypoints n = ''Too many waypoints selected ('' @ show_nat n @ msg_limit_tail"

text \<open>
  The \<open>try\<close> block of \<open>createRoute\<close> up to the end of the \<open>await\<close>. It reads the
  \<open>addresses\<close> and the \<open>startingPoint\<close> that the effect closed over when it was
  dispatched. \<open>Inl\<close> carries the message of the thrown \<open>Error\<close>. The non-null assertions
  \<open>addr.latitude!\<close> are \<open>the\<close>; the filter before them leaves only truthy coordinates.
\<close>

definition createRoute_try :: "'r directionsService \<Rightarrow> Address list \<Rightarrow> StartingPoint \<Rightarrow> string + 'r" where
  "createRoute_try directionsService addrs sp =
     (let selected = filter (\<lambda>addr. isSelected addr \<and> truthy (latitude addr) \<and> truthy (longitude addr)) addrs
      in if length selected = 0 \<or> \<not> truthy (sp_latitude sp) \<or> \<not> truthy (sp_longitude sp)
           then Inl ''No valid addresses or starting point''
         else if length selected > 25 then Inl (msg_too_many_waypoints (length selected))
         else calculateOptimalRoute (the (sp_latitude sp), the (sp_longitude sp))
                (map (\<lambda>addr. (the (latitude addr), the (longitude addr))) selected)
                directionsService)"

text \<open>
  What happens once the \<open>try\<close> block is left, on the state current at that moment: on
  success \<open>onRouteCreated\<close>, on failure the \<open>alert\<close> of the \<open>catch\<close>; in both cases the
  \<open>finally\<close> calls \<open>onRouteCreationComplete\<close>.
\<close>

definition createRoute_settle :: "string + 'r \<Rightarrow> 'r app_state \<Rightarrow> string list \<times> 'r app_state" where
  "createRoute_settle outcome s =
     (case outcome of
        Inr route \<Rightarrow> ([], onRouteCreationComplete (handleRouteCreated route s))
      | Inl errorMessage \<Rightarrow> ([errorMessage], onRouteCreationComplete s))"

text \<open>
  The route effect of \<open>MapComponent\<close>, run without interruption, once the map is loaded
  (the directions service and renderer exist): it does nothing unless
  \<open>shouldCreateRoute\<close> is set.
\<close>

definition createRoute :: "'r directionsService \<Rightarrow> 'r app_state \<Rightarrow> string list \<times> 'r app_state" where
  "createRoute directionsService s =
     (if \<not> isCreatingRoute s then ([], s)
      else createRoute_settle (createRoute_try directionsService (addresses s) (startingPoint s)) s)"

section \<open>Clearing the route and the points (App.tsx)\<close>

definition handleClearRoute :: "'r app_state \<Rightarrow> 'r app_state" where
  "handleClearRoute s =
     s\<lparr>addresses := map (\<lambda>addr. addr\<lparr>isOnRoute := False\<rparr>) (addresses s),
       currentRoute := None,
       hasRoute := False\<rparr>"

definition handleClearPoints :: "'r app_state \<Rightarrow> 'r app_state" where
  "handleClearPoints s =
     s\<lparr>addresses := map (\<lambda>addr. addr\<lparr>isSelected := False, isOnRoute := False\<rparr>) (addresses s),
       currentRoute := None,
       hasRoute := False,
       mapKey := mapKey s + 1\<rparr>"

section \<open>Who counts as geocoded (App.tsx, MapComponent.tsx)\<close>

text \<open>
  What the truthiness test \<open>addr.latitude && addr.longitude\<close> comes to: both numbers
  are there and neither is 0.
\<close>

abbreviation nonzero_coordinates :: "Address \<Rightarrow> bool" where
  "nonzero_coordinates addr \<equiv>
     (\<exists>lat lng. latitude addr = Some lat \<and> longitude addr = Some lng \<and> lat \<noteq> 0 \<and> lng \<noteq> 0)"

text \<open>The queue \<open>addressesToGeocode\<close> that \<open>handleGeocodeAll\<close> builds and then works through.\<close>

definition addressesToGeocode :: "Address list \<Rightarrow> Address list" where
  "addressesToGeocode addrs =
     filter (\<lambda>addr. address addr \<noteq> [] \<and> (\<not> truthy (latitude addr) \<or> \<not> truthy (longitude addr))) addrs"

text \<open>The records that get a marker on the map.\<close>

definition geocodedAddresses :: "Address list \<Rightarrow> Address list" where
  "geocodedAddresses addrs = filter (\<lambda>addr. truthy (latitude addr) \<and> truthy (longitude addr)) addrs"

text \<open>The statistics of the toast.\<close>

record stats =
  total :: nat
  geocoded :: nat
  errors :: nat

definition compute_stats :: "Address list \<Rightarrow> stats" where
  "compute_stats addrs =
     \<lparr>total = length addrs,
      geocoded = length (filter (\<lambda>addr. truthy (latitude addr) \<and> truthy (longitude addr)) addrs),
      errors = length (filter (\<lambda>addr. address addr \<noteq> [] \<and> (\<not> truthy (latitude addr) \<or> \<not> truthy (longitude addr))) addrs)\<rparr>"

section \<open>Example inputs\<close>

text \<open>
  Two rows as \<open>parseTabDelimited\<close> returns them for the lines \<open>Acme<TAB>1 Main St\<close> and
  \<open>acme<TAB>1 MAIN ST\<close>.
\<close>

definition acme :: Address where
  "acme = \<lparr>id_str = ''tab-1-0'', businessName = ''Acme'', address = ''1 Main St'',
            latitude = None, longitude = None,
            isSelected = False, isOnRoute = False, isDuplicate = False, isHighlighted = False\<rparr>"

definition acme_twin :: Address where
  "acme_twin = \<lparr>id_str = ''tab-1-1'', businessName = ''acme'', address = ''1 MAIN ST'',
            latitude = None, longitude = None,
            isSelected = False, isOnRoute = False, isDuplicate = False, isHighlighted = False\<rparr>"

text \<open>A geocoded stop with the given coordinates and number, not selected.\<close>

definition stop_at :: "real \<Rightarrow> real \<Rightarrow> nat \<Rightarrow> Address" where
  "stop_at lat lng k =
     \<lparr>id_str = ''tab-2-'' @ show_nat k, businessName = ''Stop'', address = ''2 Side St'',
      latitude = Some lat, longitude = Some lng,
      isSelected = False, isOnRoute = False, isDuplicate = False, isHighlighted = False\<rparr>"

definition valid_start :: StartingPoint where
  "valid_start = \<lparr>sp_address = ''6691 Frontier Dr, Springfield, VA 22150'',
                   sp_latitude = Some 38, sp_longitude = Some (- 77), isValid = True\<rparr>"

text \<open>Polygons: everything north of latitude 50, and everything.\<close>

definition north_of_50 :: polygon where
  "north_of_50 lat lng = (50 < lat)"

definition whole_map :: polygon where
  "whole_map lat lng = True"

text \<open>
  Directions services: one that answers \<open>OK\<close> with a result (here the number of
  waypoints stands for the result), one that answers \<open>ZERO_RESULTS\<close>.
\<close>

definition ok_service :: "nat directionsService" where
  "ok_service origin destination waypoints = (''OK'', Some (length waypoints))"

definition failing_service :: "nat directionsService" where
  "failing_service origin destination waypoints = (''ZERO_RESULTS'', None)"

text \<open>A geocoding adapter that finds every address at one place.\<close>

definition geocoder_found :: "string \<Rightarrow> geocode_result" where
  "geocoder_found text = GeoFound 38 (- 77)"

text \<open>
  A state with a valid starting point and one stop at (38, -77) that is selected and
  highlighted; the same state once \<open>handleCreateRoute\<close> has set \<open>isCreatingRoute\<close>.
\<close>

definition one_selected :: "nat app_state" where
  "one_selected =
     initial_state\<lparr>addresses := [(stop_at 38 (- 77) 0)\<lparr>isSelected := True, isHighlighted := True\<rparr>],
                   startingPoint := valid_start\<rparr>"

definition one_requested :: "nat app_state" where
  "one_requested = one_selected\<lparr>isCreatingRoute := True\<rparr>"

text \<open>
  The state once that request has succeeded (a route is shown), and that state once
  create-route is triggered again.
\<close>

definition route_shown :: "nat app_state" where
  "route_shown = snd (createRoute ok_service one_requested)"

definition route_rerequested :: "nat app_state" where
  "route_rerequested = snd (handleCreateRoute route_shown)"

text \<open>A geocoding adapter that finds the default starting address and nothing else.\<close>

definition geocoder_default_only :: "string \<Rightarrow> geocode_result" where
  "geocoder_default_only text =
     (if text = ''6691 Frontier Dr, Springfield, VA 22150'' then GeoFound 38 (- 77) else GeoNull)"

text \<open>
  A store whose one record was geocoded to latitude 0, and the same store once the
  address cell of that record has been edited to the empty text.
\<close>

definition equator_stop :: "nat app_state" where
  "equator_stop = initial_state\<lparr>addresses := [stop_at 0 10 0]\<rparr>"

definition equator_stop_no_text :: "nat app_state" where
  "equator_stop_no_text = handleUpdateAddress ''tab-2-0'' (cell_patch_address []) equator_stop"

text \<open>A state with a valid starting point and 26 selected stops.\<close>

definition crowded :: "nat app_state" where
  "crowded =
     initial_state\<lparr>addresses := map (\<lambda>k. (stop_at 38 (- 77) k)\<lparr>isSelected := True\<rparr>) [0..<26],
                   startingPoint := valid_start\<rparr>"

section \<open>Auxiliary facts\<close>

lemma truthy_iff: "truthy v \<longleftrightarrow> (\<exists>x. v = Some x \<and> x \<noteq> 0)"
  by (cases v) (simp_all add: truthy_def)

lemma insidePolygon_iff:
  "insidePolygon poly addr \<longleftrightarrow>
     (\<exists>lat lng. latitude addr = Some lat \<and> longitude addr = Some lng
        \<and> lat \<noteq> 0 \<and> lng \<noteq> 0 \<and> poly lat lng)"
  by (cases "latitude addr"; cases "longitude addr") (auto simp: insidePolygon_def truthy_def)

text \<open>The decimal numeral of a number reads back as that number.\<close>

lemma read_nat_snoc: "read_nat (str @ [c]) = 10 * read_nat str + ((of_char c :: nat) - 48)"
  by (simp add: read_nat_def)

lemma of_char_digit: "d < 10 \<Longrightarrow> (of_char (digit_char d) :: nat) = 48 + d"
  by (simp add: digit_char_def)

lemma read_show_nat: "read_nat (show_nat n) = n"
proof (induction n rule: show_nat.induct)
  case (1 n)
  show ?case
  proof (cases "n < 10")
    case True
    then show ?thesis
      by (subst show_nat.simps) (simp add: read_nat_def of_char_digit)
  next
    case False
    with 1 have "read_nat (show_nat (n div 10)) = n div 10" by simp
    with False show ?thesis
      by (subst show_nat.simps) (simp add: read_nat_snoc of_char_digit)
  qed
qed

lemma show_nat_0: "show_nat 0 = ''0''"
  by code_simp

lemma show_nat_1: "show_nat (Suc 0) = ''1''"
  by code_simp

lemma show_nat_26: "show_nat 26 = ''26''"
  by code_simp

text \<open>
  With distinct ids, the id test of \<open>handlePolygonComplete\<close> against a filtered sublist
  of the store is the filter predicate itself.
\<close>

lemma same_id_in_filter:
  assumes "distinct (map id_str xs)" and "a \<in> set xs"
  shows "list_ex (\<lambda>sel. id_str sel = id_str a) (filter P xs) \<longleftrightarrow> P a"
proof
  assume "list_ex (\<lambda>sel. id_str sel = id_str a) (filter P xs)"
  then obtain sel where sel: "sel \<in> set xs" "P sel" "id_str sel = id_str a"
    by (auto simp: list_ex_iff)
  from assms(1) have "inj_on id_str (set xs)" by (simp add: distinct_map)
  with sel(1,3) assms(2) have "sel = a" by (auto dest: inj_onD)
  with sel(2) show "P a" by simp
next
  assume "P a"
  with assms(2) show "list_ex (\<lambda>sel. id_str sel = id_str a) (filter P xs)"
    by (auto simp: list_ex_iff)
qed

lemma accept_isSelected:
  assumes "distinct (map id_str (addresses s))"
  shows "map isSelected (addresses (handleAcceptPolygon (Some poly) s))
           = map (insidePolygon poly) (addresses s)"
  using assms
  by (simp add: handleAcceptPolygon_def handlePolygonComplete_def same_id_in_filter o_def)

section \<open>Duplicate detection\<close>

lemma group_step_apply:
  "group_step addr m k =
     (if norm_key addr = k then Some (orElse (m k) [] @ [addr]) else m k)"
  by (cases "m (norm_key addr)") (auto simp: group_step_def orElse_def Let_def)

text \<open>
  The map after the loop, for any starting map: the bucket of a key is what was there
  before, followed by the records of the list with that key, in order.
\<close>

lemma fold_group_step_apply:
  "fold group_step xs m k =
     (if filter (\<lambda>a. norm_key a = k) xs = [] then m k
      else Some (orElse (m k) [] @ filter (\<lambda>a. norm_key a = k) xs))"
proof (induction xs arbitrary: m)
  case Nil
  show ?case by simp
next
  case (Cons a xs)
  have "fold group_step (a # xs) m k = fold group_step xs (group_step a m) k"
    by simp
  also have "\<dots> = (if filter (\<lambda>a. norm_key a = k) xs = [] then group_step a m k
      else Some (orElse (group_step a m k) [] @ filter (\<lambda>a. norm_key a = k) xs))"
    by (rule Cons.IH)
  also have "\<dots> = (if filter (\<lambda>a. norm_key a = k) (a # xs) = [] then m k
      else Some (orElse (m k) [] @ filter (\<lambda>a. norm_key a = k) (a # xs)))"
    by (simp add: group_step_apply orElse_def)
  finally show ?case .
qed

lemma build_addressMap_lookup:
  assumes "addr \<in> set addressList"
  shows "build_addressMap addressList (norm_key addr) =
           Some (filter (\<lambda>other. norm_key other = norm_key addr) addressList)"
proof -
  from assms have "filter (\<lambda>other. norm_key other = norm_key addr) addressList \<noteq> []"
    by (auto simp: filter_empty_conv)
  then show ?thesis
    by (simp add: build_addressMap_def fold_group_step_apply orElse_def)
qed

lemma norm_key_isDuplicate_update: "norm_key (addr\<lparr>isDuplicate := b\<rparr>) = norm_key addr"
  by (simp add: norm_key_def)

lemma detectDuplicates_nth:
  assumes "k < length addressList"
  shows "detectDuplicates addressList ! k =
           (addressList ! k)\<lparr>isDuplicate := sharesKey addressList (addressList ! k)\<rparr>"
proof -
  from assms have mem: "addressList ! k \<in> set addressList" by simp
  have "(1 < n) = (2 \<le> n)" for n :: nat by auto
  with build_addressMap_lookup [OF mem] assms show ?thesis
    by (simp add: detectDuplicates_def sharesKey_def Let_def)
qed

lemma detectDuplicates_eq:
  "detectDuplicates addressList =
     map (\<lambda>addr. addr\<lparr>isDuplicate := sharesKey addressList addr\<rparr>) addressList"
proof (rule nth_equalityI)
  show "length (detectDuplicates addressList) =
        length (map (\<lambda>addr. addr\<lparr>isDuplicate := sharesKey addressList addr\<rparr>) addressList)"
    by (simp add: detectDuplicates_def)
next
  fix k assume "k < length (detectDuplicates addressList)"
  then have "k < length addressList" by (simp add: detectDuplicates_def)
  then show "detectDuplicates addressList ! k =
        map (\<lambda>addr. addr\<lparr>isDuplicate := sharesKey addressList addr\<rparr>) addressList ! k"
    by (simp add: detectDuplicates_nth)
qed

lemma sharesKey_detectDuplicates:
  "sharesKey (detectDuplicates addressList) (addr\<lparr>isDuplicate := b\<rparr>) = sharesKey addressList addr"
  by (simp add: sharesKey_def detectDuplicates_eq filter_map o_def norm_key_isDuplicate_update)

text \<open>
  Right after \<open>detectDuplicates\<close>, hence right after every ingest, each flag says whether at
  least two records of the store share the record's normalized key.
\<close>

lemma detectDuplicates_correct:
  "map isDuplicate (detectDuplicates addressList)
     = map (sharesKey (detectDuplicates addressList)) (detectDuplicates addressList)"
  by (simp add: detectDuplicates_eq o_def sharesKey_detectDuplicates [unfolded detectDuplicates_eq])

lemma ingest_flags_correct:
  "map isDuplicate (addresses (ingest rows s))
     = map (sharesKey (addresses (ingest rows s))) (addresses (ingest rows s))"
  by (simp add: ingest_def detectDuplicates_correct)

text \<open>
  Update does not recompute the flags either: once the address of the second of two
  equal rows is edited to a different one, both records are still flagged.
\<close>

lemma stale_duplicate_flag_after_update:
  "map isDuplicate (addresses (run_store_ops
       [Ingest [acme, acme_twin], Update ''tab-1-1'' (cell_patch_address ''9 Elm St'')]
       (initial_state :: nat app_state))) = [True, True]
   \<and> map norm_key (addresses (run_store_ops
       [Ingest [acme, acme_twin], Update ''tab-1-1'' (cell_patch_address ''9 Elm St'')]
       (initial_state :: nat app_state))) = [''1 main st'', ''9 elm st'']"
  by code_simp

text \<open>
  Claim C2: in every store reached by ingest, update and delete operations, a record's
  \<open>isDuplicate\<close> flag is true iff at least two records of the store share its normalized
  key. The flags are right after an ingest (\<open>ingest_flags_correct\<close>), but update and
  delete do not recompute them: after the two rows \<open>Acme / 1 Main St\<close> and
  \<open>acme / 1 MAIN ST\<close> are ingested and the second is deleted, the one record left is
  still flagged, although no other record shares its key.
\<close>

theorem stale_duplicate_flag_after_delete:
  "map isDuplicate (addresses (run_store_ops [Ingest [acme, acme_twin], Delete ''tab-1-1'']
       (initial_state :: nat app_state))) = [True]
   \<and> map (sharesKey (addresses (run_store_ops [Ingest [acme, acme_twin], Delete ''tab-1-1'']
       (initial_state :: nat app_state))))
       (addresses (run_store_ops [Ingest [acme, acme_twin], Delete ''tab-1-1'']
       (initial_state :: nat app_state))) = [False]"
  by code_simp

section \<open>Update\<close>

text \<open>
  Claim C7: for a store with distinct ids and an id that occurs in it, the update applies
  the patch to the one record with that id, and sets \<open>isHighlighted\<close> to false on every
  record; nothing else changes in the other records. The new list is the old one with
  every highlight cleared and the patched record put at the position \<open>k\<close> of that id.
\<close>

theorem update_patches_one_record:
  assumes "distinct (map id_str (addresses s))" and "i \<in> set (map id_str (addresses s))"
  shows "\<exists>k < length (addresses s).
           id_str (addresses s ! k) = i
         \<and> (\<forall>j < length (addresses s). j \<noteq> k \<longrightarrow> id_str (addresses s ! j) \<noteq> i)
         \<and> addresses (handleUpdateAddress i updates s) =
             (map (\<lambda>addr. addr\<lparr>isHighlighted := False\<rparr>) (addresses s))
               [k := (spread (addresses s ! k) updates)\<lparr>isHighlighted := False\<rparr>]"
proof -
  from assms(2) obtain k where k: "k < length (addresses s)" "id_str (addresses s ! k) = i"
    by (auto simp: in_set_conv_nth)
  have uniq: "id_str (addresses s ! j) \<noteq> i" if "j < length (addresses s)" "j \<noteq> k" for j
  proof
    assume "id_str (addresses s ! j) = i"
    with k that have "map id_str (addresses s) ! j = map id_str (addresses s) ! k" by simp
    with nth_eq_iff_index_eq [OF assms(1), of j k] that k(1) show False by simp
  qed
  have "addresses (handleUpdateAddress i updates s) =
        (map (\<lambda>addr. addr\<lparr>isHighlighted := False\<rparr>) (addresses s))
          [k := (spread (addresses s ! k) updates)\<lparr>isHighlighted := False\<rparr>]"
  proof (rule nth_equalityI)
    show "length (addresses (handleUpdateAddress i updates s)) =
          length ((map (\<lambda>addr. addr\<lparr>isHighlighted := False\<rparr>) (addresses s))
            [k := (spread (addresses s ! k) updates)\<lparr>isHighlighted := False\<rparr>])"
      by (simp add: handleUpdateAddress_def)
  next
    fix j assume "j < length (addresses (handleUpdateAddress i updates s))"
    then have j: "j < length (addresses s)" by (simp add: handleUpdateAddress_def)
    show "addresses (handleUpdateAddress i updates s) ! j =
          (map (\<lambda>addr. addr\<lparr>isHighlighted := False\<rparr>) (addresses s))
            [k := (spread (addresses s ! k) updates)\<lparr>isHighlighted := False\<rparr>] ! j"
    proof (cases "j = k")
      case True
      with k show ?thesis by (simp add: handleUpdateAddress_def)
    next
      case False
      with uniq [OF j] j show ?thesis by (simp add: handleUpdateAddress_def)
    qed
  qed
  with k uniq show ?thesis by blast
qed

theorem update_patches_one_record_witness:
  "distinct (map id_str (addresses (initial_state\<lparr>addresses := [acme\<lparr>isHighlighted := True\<rparr>, acme_twin]\<rparr> :: nat app_state)))
   \<and> ''tab-1-1'' \<in> set (map id_str (addresses (initial_state\<lparr>addresses := [acme\<lparr>isHighlighted := True\<rparr>, acme_twin]\<rparr> :: nat app_state)))
   \<and> addresses (handleUpdateAddress ''tab-1-1'' (cell_patch_address ''9 Elm St'')
        (initial_state\<lparr>addresses := [acme\<lparr>isHighlighted := True\<rparr>, acme_twin]\<rparr> :: nat app_state))
       = [acme, acme_twin\<lparr>address := ''9 Elm St''\<rparr>]"
  using update_patches_one_record
    [of "initial_state\<lparr>addresses := [acme\<lparr>isHighlighted := True\<rparr>, acme_twin]\<rparr> :: nat app_state"
        "''tab-1-1''" "cell_patch_address ''9 Elm St''"]
  by (simp add: initial_state_def acme_def acme_twin_def handleUpdateAddress_def spread_def
        cell_patch_address_def orElse_def)

section \<open>Region selection\<close>

text \<open>
  Claim C5: region selection selects only records that have coordinates and whose
  point lies inside the region; a record lacking a coordinate is never selected; and
  the accepted region replaces the selection: in a store with distinct ids, a record is
  selected afterwards iff it is in the newly computed subset, whatever its flag was.
\<close>

theorem region_selection_only_geocoded_inside:
  "(\<forall>addr \<in> set (filter (insidePolygon poly) (addresses s)).
       \<exists>lat lng. latitude addr = Some lat \<and> longitude addr = Some lng \<and> poly lat lng)
   \<and> (\<forall>addr. latitude addr = None \<or> longitude addr = None \<longrightarrow> \<not> insidePolygon poly addr)
   \<and> (distinct (map id_str (addresses s)) \<longrightarrow>
        length (addresses (handleAcceptPolygon (Some poly) s)) = length (addresses s)
      \<and> (\<forall>k < length (addresses s).
           (isSelected (addresses (handleAcceptPolygon (Some poly) s) ! k) \<longleftrightarrow>
              addresses s ! k \<in> set (filter (insidePolygon poly) (addresses s)))
         \<and> (isSelected (addresses (handleAcceptPolygon (Some poly) s) ! k) \<longrightarrow>
              (\<exists>lat lng. latitude (addresses s ! k) = Some lat
                 \<and> longitude (addresses s ! k) = Some lng \<and> poly lat lng))))"
proof (intro conjI impI)
  show "\<forall>addr \<in> set (filter (insidePolygon poly) (addresses s)).
       \<exists>lat lng. latitude addr = Some lat \<and> longitude addr = Some lng \<and> poly lat lng"
    by (auto simp: insidePolygon_iff)
next
  show "\<forall>addr. latitude addr = None \<or> longitude addr = None \<longrightarrow> \<not> insidePolygon poly addr"
    by (auto simp: insidePolygon_iff)
next
  show "length (addresses (handleAcceptPolygon (Some poly) s)) = length (addresses s)"
    by (simp add: handleAcceptPolygon_def handlePolygonComplete_def)
next
  let ?s' = "handleAcceptPolygon (Some poly) s"
  assume dist: "distinct (map id_str (addresses s))"
  have len: "length (addresses ?s') = length (addresses s)"
    by (simp add: handleAcceptPolygon_def handlePolygonComplete_def)
  have sel: "isSelected (addresses ?s' ! k) = insidePolygon poly (addresses s ! k)"
    if "k < length (addresses s)" for k
  proof -
    from that len have "isSelected (addresses ?s' ! k) = map isSelected (addresses ?s') ! k"
      by simp
    also have "\<dots> = map (insidePolygon poly) (addresses s) ! k"
      by (simp only: accept_isSelected [OF dist])
    also from that have "\<dots> = insidePolygon poly (addresses s ! k)" by simp
    finally show ?thesis .
  qed
  show "\<forall>k < length (addresses s).
           (isSelected (addresses ?s' ! k) \<longleftrightarrow>
              addresses s ! k \<in> set (filter (insidePolygon poly) (addresses s)))
         \<and> (isSelected (addresses ?s' ! k) \<longrightarrow>
              (\<exists>lat lng. latitude (addresses s ! k) = Some lat
                 \<and> longitude (addresses s ! k) = Some lng \<and> poly lat lng))"
    by (auto simp: sel insidePolygon_iff)
qed

theorem region_selection_only_geocoded_inside_witness:
  "distinct (map id_str [stop_at 38 (- 77) 0, stop_at 60 10 1, acme])
   \<and> map isSelected (addresses (handleAcceptPolygon (Some north_of_50)
        (initial_state\<lparr>addresses := [(stop_at 38 (- 77) 0)\<lparr>isSelected := True\<rparr>,
                                      stop_at 60 10 1, acme\<lparr>isSelected := True\<rparr>]\<rparr> :: nat app_state)))
       = [False, True, False]"
  using region_selection_only_geocoded_inside
    [of north_of_50 "initial_state\<lparr>addresses := [(stop_at 38 (- 77) 0)\<lparr>isSelected := True\<rparr>,
                                      stop_at 60 10 1, acme\<lparr>isSelected := True\<rparr>]\<rparr> :: nat app_state"]
  by (simp add: initial_state_def stop_at_def acme_def show_nat_0 show_nat_1
        handleAcceptPolygon_def handlePolygonComplete_def insidePolygon_def truthy_def
        north_of_50_def)

text \<open>
  Claim C6, as the code has it: in a store with distinct ids, region selection sets
  \<open>isSelected\<close> and \<open>isHighlighted\<close> to true on every record of the subset and sets both
  to false on every other record (the highlight of a record outside the subset is
  cleared, not kept); the other fields of every record stay as they are.
\<close>

theorem region_selection_flags:
  assumes "distinct (map id_str (addresses s))"
  shows "map isSelected (addresses (handleAcceptPolygon (Some poly) s)) = map (insidePolygon poly) (addresses s)
    \<and> map isHighlighted (addresses (handleAcceptPolygon (Some poly) s)) = map (insidePolygon poly) (addresses s)
    \<and> map id_str (addresses (handleAcceptPolygon (Some poly) s)) = map id_str (addresses s)
    \<and> map businessName (addresses (handleAcceptPolygon (Some poly) s)) = map businessName (addresses s)
    \<and> map address (addresses (handleAcceptPolygon (Some poly) s)) = map address (addresses s)
    \<and> map latitude (addresses (handleAcceptPolygon (Some poly) s)) = map latitude (addresses s)
    \<and> map longitude (addresses (handleAcceptPolygon (Some poly) s)) = map longitude (addresses s)
    \<and> map isOnRoute (addresses (handleAcceptPolygon (Some poly) s)) = map isOnRoute (addresses s)
    \<and> map isDuplicate (addresses (handleAcceptPolygon (Some poly) s)) = map isDuplicate (addresses s)"
  using assms
  by (simp add: handleAcceptPolygon_def handlePolygonComplete_def same_id_in_filter o_def)

theorem region_selection_flags_witness:
  "distinct (map id_str (addresses (one_selected\<lparr>addresses := addresses one_selected @ [acme]\<rparr>)))
   \<and> map isSelected (addresses (handleAcceptPolygon (Some north_of_50)
        (one_selected\<lparr>addresses := addresses one_selected @ [acme]\<rparr>))) = [False, False]
   \<and> map isHighlighted (addresses (handleAcceptPolygon (Some whole_map)
        (one_selected\<lparr>addresses := addresses one_selected @ [acme]\<rparr>))) = [True, False]"
  using region_selection_flags [of "one_selected\<lparr>addresses := addresses one_selected @ [acme]\<rparr>" north_of_50]
        region_selection_flags [of "one_selected\<lparr>addresses := addresses one_selected @ [acme]\<rparr>" whole_map]
  by (simp add: one_selected_def initial_state_def stop_at_def acme_def show_nat_0
        insidePolygon_def truthy_def north_of_50_def whole_map_def)

text \<open>
  The highlight of a record outside the subset does not survive: the one stop of
  \<open>one_selected\<close> is highlighted and lies at latitude 38; once a polygon north of
  latitude 50 is accepted the subset is empty and the stop is no longer highlighted.
\<close>

theorem region_selection_highlight_counterexample:
  "filter (insidePolygon north_of_50) (addresses one_selected) = []
   \<and> map isHighlighted (addresses one_selected) = [True]
   \<and> map isHighlighted (addresses (handleAcceptPolygon (Some north_of_50) one_selected)) = [False]"
  by (simp add: one_selected_def initial_state_def stop_at_def
        truthy_def handleAcceptPolygon_def handlePolygonComplete_def insidePolygon_def north_of_50_def)

section \<open>The starting point\<close>

text \<open>
  Claim C8, as the code has it: every edit of the starting address replaces the text,
  sets \<open>isValid\<close> to false and clears both coordinates; the geocode operation on an empty
  text changes nothing and sends nothing to the geocoding adapter. A geocode of a
  non-empty text sends that text to the adapter and ends with \<open>isValid\<close> true exactly
  when the adapter found it, while the text is then whatever it has become during the
  call: \<open>isValid\<close> speaks of the text of the moment of dispatch, which is the current
  text when no edit was made while the call was pending.
\<close>

theorem starting_point_edit_and_geocode:
  "startingPoint (handleStartingAddressChange text s) =
      \<lparr>sp_address = text, sp_latitude = None, sp_longitude = None, isValid = False\<rparr>
   \<and> (sp_address (startingPoint s) = [] \<longrightarrow>
        handleGeocodeStartingPoint geocodeAddress pending s = ([], [], s))
   \<and> (sp_address (startingPoint s) \<noteq> [] \<longrightarrow>
        fst (handleGeocodeStartingPoint geocodeAddress pending s) = [sp_address (startingPoint s)]
      \<and> (isValid (startingPoint (snd (snd (handleGeocodeStartingPoint geocodeAddress pending s)))) \<longleftrightarrow>
           (\<exists>lat lng. geocodeAddress (sp_address (startingPoint s)) = GeoFound lat lng))
      \<and> sp_address (startingPoint (snd (snd (handleGeocodeStartingPoint geocodeAddress pending s))))
           = sp_address (startingPoint (pending (s\<lparr>isGeocodingStart := True\<rparr>)))
      \<and> (sp_address (startingPoint (pending (s\<lparr>isGeocodingStart := True\<rparr>))) = sp_address (startingPoint s) \<longrightarrow>
           (isValid (startingPoint (snd (snd (handleGeocodeStartingPoint geocodeAddress pending s)))) \<longleftrightarrow>
              (\<exists>lat lng. geocodeAddress
                 (sp_address (startingPoint (snd (snd (handleGeocodeStartingPoint geocodeAddress pending s)))))
                   = GeoFound lat lng))))"
  by (cases "geocodeAddress (sp_address (startingPoint s))")
     (simp_all add: handleStartingAddressChange_def handleGeocodeStartingPoint_def
        geocodeStartingPoint_begin_def geocodeStartingPoint_settle_def)

theorem starting_point_edit_and_geocode_witness:
  "sp_address (startingPoint (handleStartingAddressChange [] one_selected)) = []
   \<and> handleGeocodeStartingPoint geocoder_default_only (\<lambda>s. s) (handleStartingAddressChange [] one_selected)
        = ([], [], handleStartingAddressChange [] one_selected)
   \<and> sp_address (startingPoint (initial_state :: nat app_state)) \<noteq> []
   \<and> sp_address (startingPoint ((initial_state :: nat app_state)\<lparr>isGeocodingStart := True\<rparr>))
        = sp_address (startingPoint (initial_state :: nat app_state))
   \<and> isValid (startingPoint (snd (snd (handleGeocodeStartingPoint geocoder_default_only (\<lambda>s. s)
          (initial_state :: nat app_state)))))
   \<and> sp_address (startingPoint (handleStartingAddressChange ''9 Elm St'' one_selected)) \<noteq> []
   \<and> \<not> isValid (startingPoint (handleStartingAddressChange ''9 Elm St'' one_selected))
   \<and> \<not> isValid (startingPoint (snd (snd (handleGeocodeStartingPoint geocoder_default_only (\<lambda>s. s)
          (handleStartingAddressChange ''9 Elm St'' one_selected)))))"
  using starting_point_edit_and_geocode [of "[]" one_selected geocoder_default_only "\<lambda>s. s"]
        starting_point_edit_and_geocode
          [of "''9 Elm St''" "handleStartingAddressChange [] one_selected" geocoder_default_only "\<lambda>s. s"]
        starting_point_edit_and_geocode
          [of "''9 Elm St''" "initial_state :: nat app_state" geocoder_default_only "\<lambda>s. s"]
        starting_point_edit_and_geocode
          [of "''9 Elm St''" "handleStartingAddressChange ''9 Elm St'' one_selected" geocoder_default_only "\<lambda>s. s"]
  by (simp add: handleStartingAddressChange_def geocoder_default_only_def initial_state_def)

text \<open>
  \<open>isValid\<close> can be true on a text that was never geocoded: from the initial state the
  default address is sent to the adapter; while the call is pending the text is edited
  to \<open>9 Elm St\<close>; the adapter finds the default address, and the state ends with the text
  \<open>9 Elm St\<close>, \<open>isValid\<close> true and the coordinates of the default address, although the
  adapter was never asked about \<open>9 Elm St\<close> and would not find it.
\<close>

theorem starting_point_stale_geocode_counterexample:
  "fst (handleGeocodeStartingPoint geocoder_default_only (handleStartingAddressChange ''9 Elm St'')
          (initial_state :: nat app_state)) = [''6691 Frontier Dr, Springfield, VA 22150'']
   \<and> startingPoint (snd (snd (handleGeocodeStartingPoint geocoder_default_only
          (handleStartingAddressChange ''9 Elm St'') (initial_state :: nat app_state))))
        = \<lparr>sp_address = ''9 Elm St'', sp_latitude = Some 38, sp_longitude = Some (- 77), isValid = True\<rparr>
   \<and> geocoder_default_only ''9 Elm St'' = GeoNull"
  by (simp add: handleGeocodeStartingPoint_def geocodeStartingPoint_begin_def
        geocodeStartingPoint_settle_def handleStartingAddressChange_def
        geocoder_default_only_def initial_state_def)

section \<open>The route workflow\<close>

text \<open>
  Claim C3: create-route checks, in this order, that the starting point is valid, that
  at least one address is selected and that at most 25 are; the first check that fails
  gives its message and the state is left as it was. With more than 25 addresses
  selected create-route always fails and leaves the state as it was; the message is the
  overflow message with the exact count whenever the starting point is valid, which is
  always so when the create-route button is enabled.
\<close>

theorem create_route_checks:
  "(\<not> isValid (startingPoint s) \<longrightarrow> handleCreateRoute s = ([msg_invalid_start], s))
   \<and> (isValid (startingPoint s) \<and> length (selectedAddresses s) = 0 \<longrightarrow>
        handleCreateRoute s = ([msg_none_selected], s))
   \<and> (isValid (startingPoint s) \<and> 25 < length (selectedAddresses s) \<longrightarrow>
        handleCreateRoute s =
          ([''Too many addresses selected ('' @ show_nat (length (selectedAddresses s)) @ msg_limit_tail], s)
        \<and> read_nat (show_nat (length (selectedAddresses s))) = length (selectedAddresses s))
   \<and> (isValid (startingPoint s) \<and> 1 \<le> length (selectedAddresses s)
        \<and> length (selectedAddresses s) \<le> 25 \<longrightarrow>
        handleCreateRoute s = ([], s\<lparr>isCreatingRoute := True\<rparr>))
   \<and> (25 < length (selectedAddresses s) \<longrightarrow>
        fst (handleCreateRoute s) \<noteq> [] \<and> snd (handleCreateRoute s) = s)
   \<and> (25 < length (selectedAddresses s) \<and> \<not> createRoute_disabled s \<longrightarrow>
        handleCreateRoute s = ([msg_too_many_addresses (length (selectedAddresses s))], s))"
  by (auto simp: handleCreateRoute_def msg_too_many_addresses_def read_show_nat createRoute_disabled_def)

lemma crowded_selected: "length (selectedAddresses crowded) = 26"
  by (simp add: crowded_def selectedAddresses_def filter_map o_def)

lemma crowded_valid: "isValid (startingPoint crowded)"
  by (simp add: crowded_def valid_start_def)

theorem create_route_checks_witness:
  "isValid (startingPoint crowded) \<and> 25 < length (selectedAddresses crowded)
   \<and> \<not> createRoute_disabled crowded
   \<and> handleCreateRoute crowded =
      ([''Too many addresses selected (26). Google Maps allows a maximum of 25 waypoints per route. Please reduce the number of selected addresses or split into multiple routes.''], crowded)
   \<and> \<not> isValid (startingPoint (initial_state :: nat app_state))
   \<and> handleCreateRoute (initial_state :: nat app_state)
        = ([''Starting point is invalid or not geocoded.''], initial_state)
   \<and> isValid (startingPoint one_selected) \<and> length (selectedAddresses one_selected) = 1
   \<and> handleCreateRoute one_selected = ([], one_requested)
   \<and> isValid (startingPoint (handleClearPoints one_selected))
   \<and> length (selectedAddresses (handleClearPoints one_selected)) = 0
   \<and> handleCreateRoute (handleClearPoints one_selected)
        = ([''Please select addresses by drawing a polygon on the map.''], handleClearPoints one_selected)"
  using create_route_checks [of crowded] create_route_checks [of "initial_state :: nat app_state"]
        create_route_checks [of one_selected] create_route_checks [of "handleClearPoints one_selected"]
  by (simp add: crowded_selected crowded_valid show_nat_26 msg_limit_tail_def msg_invalid_start_def
        msg_none_selected_def createRoute_disabled_def)
     (simp add: initial_state_def one_selected_def one_requested_def crowded_def valid_start_def
        selectedAddresses_def stop_at_def handleClearPoints_def)

text \<open>The ways the \<open>try\<close> block of \<open>createRoute\<close> fails.\<close>

lemma createRoute_try_no_stops:
  "filter (\<lambda>addr. isSelected addr \<and> truthy (latitude addr) \<and> truthy (longitude addr)) addrs = []
   \<Longrightarrow> createRoute_try svc addrs sp = Inl ''No valid addresses or starting point''"
  by (simp add: createRoute_try_def)

lemma createRoute_try_cap:
  assumes "25 < length (filter (\<lambda>addr. isSelected addr \<and> truthy (latitude addr) \<and> truthy (longitude addr)) addrs)"
    and "truthy (sp_latitude sp)" and "truthy (sp_longitude sp)"
  shows "createRoute_try svc addrs sp =
     Inl (msg_too_many_waypoints (length (filter (\<lambda>addr. isSelected addr \<and> truthy (latitude addr) \<and> truthy (longitude addr)) addrs)))"
  using assms by (auto simp: createRoute_try_def Let_def)

lemma calculateOptimalRoute_rejects:
  assumes "fst (svc origin origin waypoints) \<noteq> ''OK'' \<or> snd (svc origin origin waypoints) = None"
  shows "\<exists>msg. calculateOptimalRoute origin waypoints svc = Inl msg"
  using assms
  by (cases "svc origin origin waypoints"; cases "snd (svc origin origin waypoints)")
     (auto simp: calculateOptimalRoute_def)

text \<open>
  Claim C9, as the code has it: when the pending route request fails, with the message
  \<open>msg\<close>, the message is shown, and the state afterwards is the state before with only
  \<open>isCreatingRoute\<close> cleared: the address store, with every \<open>isOnRoute\<close> flag, is the
  same, no new route is recorded (an earlier one is kept), and the workflow is back
  where the request came from: \<open>Idle\<close> when no route was shown, \<open>Active\<close> with the earlier
  route when one was. The same holds when the failure arrives on a later state.
\<close>

theorem failed_route_request_changes_nothing:
  assumes "isCreatingRoute s"
    and "createRoute_try svc (addresses s) (startingPoint s) = Inl msg"
  shows "createRoute svc s = ([msg], s\<lparr>isCreatingRoute := False\<rparr>)
    \<and> addresses (snd (createRoute svc s)) = addresses s
    \<and> currentRoute (snd (createRoute svc s)) = currentRoute s
    \<and> hasRoute (snd (createRoute svc s)) = hasRoute s
    \<and> workflow_of (snd (createRoute svc s)) = (if hasRoute s then Active else Idle)
    \<and> createRoute_settle (createRoute_try svc (addresses s) (startingPoint s)) later =
         ([msg], later\<lparr>isCreatingRoute := False\<rparr>)"
  using assms
  by (simp add: createRoute_def createRoute_settle_def onRouteCreationComplete_def workflow_of_def)

lemma one_requested_fails:
  "createRoute_try failing_service (addresses one_requested) (startingPoint one_requested)
     = Inl ''Directions request failed: ZERO_RESULTS''"
  by (simp add: createRoute_try_def one_requested_def one_selected_def initial_state_def
      stop_at_def valid_start_def truthy_def calculateOptimalRoute_def failing_service_def)

lemma route_shown_eq:
  "route_shown = one_selected\<lparr>addresses := [(stop_at 38 (- 77) 0)\<lparr>isSelected := True,
                    isHighlighted := True, isOnRoute := True\<rparr>],
                  currentRoute := Some 1, hasRoute := True\<rparr>"
  by (simp add: route_shown_def createRoute_def createRoute_settle_def createRoute_try_def
        calculateOptimalRoute_def ok_service_def handleRouteCreated_def
        onRouteCreationComplete_def one_requested_def one_selected_def initial_state_def
        stop_at_def valid_start_def truthy_def)

lemma route_rerequested_eq: "route_rerequested = route_shown\<lparr>isCreatingRoute := True\<rparr>"
  by (simp add: route_rerequested_def handleCreateRoute_def selectedAddresses_def
        route_shown_eq one_selected_def initial_state_def stop_at_def valid_start_def)

lemma route_rerequested_fails:
  "createRoute_try failing_service (addresses route_rerequested) (startingPoint route_rerequested)
     = Inl ''Directions request failed: ZERO_RESULTS''"
  by (simp add: createRoute_try_def route_rerequested_eq route_shown_eq one_selected_def
      initial_state_def stop_at_def valid_start_def truthy_def calculateOptimalRoute_def
      failing_service_def)

theorem failed_route_request_changes_nothing_witness:
  "isCreatingRoute one_requested
   \<and> createRoute_try failing_service (addresses one_requested) (startingPoint one_requested)
       = Inl ''Directions request failed: ZERO_RESULTS''
   \<and> createRoute failing_service one_requested
       = ([''Directions request failed: ZERO_RESULTS''], one_selected)
   \<and> workflow_of (snd (createRoute failing_service one_requested)) = Idle
   \<and> isCreatingRoute route_rerequested
   \<and> createRoute_try failing_service (addresses route_rerequested) (startingPoint route_rerequested)
       = Inl ''Directions request failed: ZERO_RESULTS''
   \<and> createRoute failing_service route_rerequested
       = ([''Directions request failed: ZERO_RESULTS''], route_shown)
   \<and> workflow_of (snd (createRoute failing_service route_rerequested)) = Active"
  using failed_route_request_changes_nothing
    [of one_requested failing_service "''Directions request failed: ZERO_RESULTS''" one_requested]
    failed_route_request_changes_nothing
    [of route_rerequested failing_service "''Directions request failed: ZERO_RESULTS''" route_rerequested]
  by (simp add: one_requested_fails route_rerequested_fails)
     (simp add: one_requested_def one_selected_def initial_state_def workflow_of_def
        route_rerequested_eq route_shown_eq)

text \<open>
  A failed request does not always end in \<open>Idle\<close> with no route recorded: after the
  request of \<open>one_requested\<close> has succeeded a route is shown and the create-route button
  is enabled; create-route is triggered again and this time the directions service
  answers \<open>ZERO_RESULTS\<close>; the failure leaves the workflow \<open>Active\<close> with the earlier
  route still recorded.
\<close>

theorem failed_route_request_counterexample:
  "createRoute ok_service one_requested = ([], route_shown)
   \<and> \<not> createRoute_disabled route_shown
   \<and> handleCreateRoute route_shown = ([], route_rerequested)
   \<and> fst (createRoute failing_service route_rerequested) = [''Directions request failed: ZERO_RESULTS'']
   \<and> workflow_of (snd (createRoute failing_service route_rerequested)) = Active
   \<and> currentRoute (snd (createRoute failing_service route_rerequested)) = Some 1"
  by (simp add: createRoute_def createRoute_settle_def route_rerequested_fails
        onRouteCreationComplete_def workflow_of_def)
     (simp add: route_rerequested_eq route_shown_eq createRoute_disabled_def selectedAddresses_def
        handleCreateRoute_def one_selected_def initial_state_def valid_start_def stop_at_def
        one_requested_def createRoute_try_def calculateOptimalRoute_def ok_service_def
        handleRouteCreated_def truthy_def createRoute_def createRoute_settle_def
        onRouteCreationComplete_def)

text \<open>
  Claim C1, as the code has it: when a route request succeeds, each record's
  \<open>isOnRoute\<close> becomes its \<open>isSelected\<close> value in the store as it is when the success is
  applied (\<open>s\<close> below), the route is recorded and the workflow is \<open>Active\<close>; this is the
  selection of the moment of dispatch whenever the selection did not change meanwhile.
\<close>

theorem route_success_tags_current_selection:
  "map isOnRoute (addresses (snd (createRoute_settle (Inr route) s))) = map isSelected (addresses s)
   \<and> map isSelected (addresses (snd (createRoute_settle (Inr route) s))) = map isSelected (addresses s)
   \<and> currentRoute (snd (createRoute_settle (Inr route) s)) = Some route
   \<and> workflow_of (snd (createRoute_settle (Inr route) s)) = Active
   \<and> (map isSelected (addresses s) = map isSelected (addresses dispatched) \<longrightarrow>
        map isOnRoute (addresses (snd (createRoute_settle (Inr route) s)))
          = map isSelected (addresses dispatched))"
  by (simp add: createRoute_settle_def handleRouteCreated_def onRouteCreationComplete_def
        workflow_of_def o_def)

theorem route_success_tags_current_selection_witness:
  "map isSelected (addresses one_requested) = map isSelected (addresses one_selected)
   \<and> map isOnRoute (addresses (snd (createRoute_settle (Inr 1) one_requested))) = [True]"
  using route_success_tags_current_selection [of 1 one_requested one_selected]
  by (simp add: one_requested_def one_selected_def initial_state_def stop_at_def)

text \<open>
  The selection of the moment of dispatch is not what gets tagged: in \<open>one_selected\<close>
  create-route passes its checks, the request is dispatched with the one selected stop
  and the service will answer \<open>OK\<close>; while the call is pending a polygon north of
  latitude 50 is accepted, which deselects the stop; the success then leaves the stop
  with \<open>isOnRoute\<close> false, although it was selected at dispatch.
\<close>

theorem route_success_snapshot_counterexample:
  "handleCreateRoute one_selected = ([], one_requested)
   \<and> createRoute_try ok_service (addresses one_requested) (startingPoint one_requested) = Inr 1
   \<and> map isSelected (addresses one_requested) = [True]
   \<and> map isOnRoute (addresses (snd (createRoute_settle (Inr 1)
        (handleAcceptPolygon (Some north_of_50) one_requested)))) = [False]"
  by (simp add: handleCreateRoute_def selectedAddresses_def createRoute_try_def
        calculateOptimalRoute_def ok_service_def
        one_requested_def one_selected_def initial_state_def stop_at_def valid_start_def
        truthy_def createRoute_settle_def handleRouteCreated_def onRouteCreationComplete_def
        handleAcceptPolygon_def handlePolygonComplete_def insidePolygon_def north_of_50_def)

section \<open>Clearing the route and the points\<close>

text \<open>
  Claim C4: clear-route clears \<open>isOnRoute\<close> on every record and discards the route,
  and leaves every \<open>isSelected\<close> as it is; clear-all-points clears \<open>isSelected\<close> and
  \<open>isOnRoute\<close> on every record, discards the route and changes the key of the map, which
  remounts it. Neither changes the id, business name, address, coordinates or
  duplicate flag (or the highlight) of any record.
\<close>

theorem clear_route_and_clear_points:
  "map isOnRoute (addresses (handleClearRoute s)) = replicate (length (addresses s)) False
   \<and> map isSelected (addresses (handleClearRoute s)) = map isSelected (addresses s)
   \<and> currentRoute (handleClearRoute s) = None \<and> \<not> hasRoute (handleClearRoute s)
   \<and> mapKey (handleClearRoute s) = mapKey s
   \<and> map isSelected (addresses (handleClearPoints s)) = replicate (length (addresses s)) False
   \<and> map isOnRoute (addresses (handleClearPoints s)) = replicate (length (addresses s)) False
   \<and> currentRoute (handleClearPoints s) = None \<and> \<not> hasRoute (handleClearPoints s)
   \<and> mapKey (handleClearPoints s) \<noteq> mapKey s
   \<and> map id_str (addresses (handleClearRoute s)) = map id_str (addresses s)
   \<and> map businessName (addresses (handleClearRoute s)) = map businessName (addresses s)
   \<and> map address (addresses (handleClearRoute s)) = map address (addresses s)
   \<and> map latitude (addresses (handleClearRoute s)) = map latitude (addresses s)
   \<and> map longitude (addresses (handleClearRoute s)) = map longitude (addresses s)
   \<and> map isDuplicate (addresses (handleClearRoute s)) = map isDuplicate (addresses s)
   \<and> map isHighlighted (addresses (handleClearRoute s)) = map isHighlighted (addresses s)
   \<and> map id_str (addresses (handleClearPoints s)) = map id_str (addresses s)
   \<and> map businessName (addresses (handleClearPoints s)) = map businessName (addresses s)
   \<and> map address (addresses (handleClearPoints s)) = map address (addresses s)
   \<and> map latitude (addresses (handleClearPoints s)) = map latitude (addresses s)
   \<and> map longitude (addresses (handleClearPoints s)) = map longitude (addresses s)
   \<and> map isDuplicate (addresses (handleClearPoints s)) = map isDuplicate (addresses s)
   \<and> map isHighlighted (addresses (handleClearPoints s)) = map isHighlighted (addresses s)"
  by (simp add: handleClearRoute_def handleClearPoints_def map_replicate_const o_def)

section \<open>A coordinate of zero\<close>

text \<open>
  Claim C10, as the code has it: for every record, having coordinates is decided by
  truthiness, so both numbers must be there and neither may be 0. The queue of
  geocode-all is the records with an address text that fail this test, the markers and
  the geocoded count are the records that pass it, the error count is the records with
  an address text that fail it, and a polygon selects only records that pass it. So a
  record whose latitude or longitude is exactly 0 gets no marker, is not counted as
  geocoded and is selected by no polygon; if it has an address text it is in the queue
  of geocode-all and counted as an error, and if its address text is empty it is
  neither.
\<close>

theorem zero_coordinate_counts_as_absent:
  "addressesToGeocode addrs = filter (\<lambda>a. address a \<noteq> [] \<and> \<not> nonzero_coordinates a) addrs
   \<and> geocodedAddresses addrs = filter nonzero_coordinates addrs
   \<and> filter (insidePolygon poly) addrs
        = filter (\<lambda>a. \<exists>lat lng. latitude a = Some lat \<and> longitude a = Some lng
                        \<and> lat \<noteq> 0 \<and> lng \<noteq> 0 \<and> poly lat lng) addrs
   \<and> compute_stats addrs =
        \<lparr>total = length addrs,
         geocoded = length (filter nonzero_coordinates addrs),
         errors = length (filter (\<lambda>a. address a \<noteq> [] \<and> \<not> nonzero_coordinates a) addrs)\<rparr>
   \<and> (latitude addr = Some 0 \<or> longitude addr = Some 0 \<longrightarrow>
        addr \<notin> set (geocodedAddresses (before @ addr # after))
      \<and> addr \<notin> set (filter (insidePolygon poly) (before @ addr # after))
      \<and> geocoded (compute_stats (before @ addr # after)) = geocoded (compute_stats (before @ after))
      \<and> (address addr \<noteq> [] \<longrightarrow>
           addr \<in> set (addressesToGeocode (before @ addr # after))
         \<and> errors (compute_stats (before @ addr # after)) = errors (compute_stats (before @ after)) + 1)
      \<and> (address addr = [] \<longrightarrow>
           addr \<notin> set (addressesToGeocode (before @ addr # after))
         \<and> errors (compute_stats (before @ addr # after)) = errors (compute_stats (before @ after))))"
proof -
  have both: "(truthy (latitude a) \<and> truthy (longitude a)) = nonzero_coordinates a" for a
    by (auto simp: truthy_iff)
  have either: "(\<not> truthy (latitude a) \<or> \<not> truthy (longitude a)) = (\<not> nonzero_coordinates a)" for a
    by (auto simp: truthy_iff)
  have queue: "addressesToGeocode xs = filter (\<lambda>a. address a \<noteq> [] \<and> \<not> nonzero_coordinates a) xs" for xs
    unfolding addressesToGeocode_def either ..
  have markers: "geocodedAddresses xs = filter nonzero_coordinates xs" for xs
    unfolding geocodedAddresses_def both ..
  have inside: "filter (insidePolygon poly) xs
        = filter (\<lambda>a. \<exists>lat lng. latitude a = Some lat \<and> longitude a = Some lng
                        \<and> lat \<noteq> 0 \<and> lng \<noteq> 0 \<and> poly lat lng) xs" for xs
    by (rule filter_cong) (simp_all add: insidePolygon_iff)
  have stats: "compute_stats xs =
        \<lparr>total = length xs,
         geocoded = length (filter nonzero_coordinates xs),
         errors = length (filter (\<lambda>a. address a \<noteq> [] \<and> \<not> nonzero_coordinates a) xs)\<rparr>" for xs
    unfolding compute_stats_def both either ..
  have zero: "\<not> nonzero_coordinates addr" if "latitude addr = Some 0 \<or> longitude addr = Some 0"
    using that by auto
  have general:
    "addressesToGeocode addrs = filter (\<lambda>a. address a \<noteq> [] \<and> \<not> nonzero_coordinates a) addrs
     \<and> geocodedAddresses addrs = filter nonzero_coordinates addrs
     \<and> filter (insidePolygon poly) addrs
          = filter (\<lambda>a. \<exists>lat lng. latitude a = Some lat \<and> longitude a = Some lng
                          \<and> lat \<noteq> 0 \<and> lng \<noteq> 0 \<and> poly lat lng) addrs
     \<and> compute_stats addrs =
          \<lparr>total = length addrs,
           geocoded = length (filter nonzero_coordinates addrs),
           errors = length (filter (\<lambda>a. address a \<noteq> [] \<and> \<not> nonzero_coordinates a) addrs)\<rparr>"
    using queue [of addrs] markers [of addrs] inside [of addrs] stats [of addrs] by blast
  have special:
    "addr \<notin> set (geocodedAddresses (before @ addr # after))
      \<and> addr \<notin> set (filter (insidePolygon poly) (before @ addr # after))
      \<and> geocoded (compute_stats (before @ addr # after)) = geocoded (compute_stats (before @ after))
      \<and> (address addr \<noteq> [] \<longrightarrow>
           addr \<in> set (addressesToGeocode (before @ addr # after))
         \<and> errors (compute_stats (before @ addr # after)) = errors (compute_stats (before @ after)) + 1)
      \<and> (address addr = [] \<longrightarrow>
           addr \<notin> set (addressesToGeocode (before @ addr # after))
         \<and> errors (compute_stats (before @ addr # after)) = errors (compute_stats (before @ after)))"
    if z: "latitude addr = Some 0 \<or> longitude addr = Some 0"
  proof -
    from zero [OF z] have out: "\<not> insidePolygon poly addr"
      by (auto simp: insidePolygon_iff)
    from zero [OF z] out show ?thesis
      by (simp add: queue markers stats)
  qed
  from general special show ?thesis by blast
qed

theorem zero_coordinate_counts_as_absent_witness:
  "latitude (stop_at 0 10 0) = Some 0 \<and> address (stop_at 0 10 0) \<noteq> []
   \<and> addressesToGeocode [stop_at 0 10 0, stop_at 38 (- 77) 1] = [stop_at 0 10 0]
   \<and> geocodedAddresses [stop_at 0 10 0, stop_at 38 (- 77) 1] = [stop_at 38 (- 77) 1]
   \<and> filter (insidePolygon whole_map) [stop_at 0 10 0, stop_at 38 (- 77) 1] = [stop_at 38 (- 77) 1]
   \<and> compute_stats [stop_at 0 10 0, stop_at 38 (- 77) 1] = \<lparr>total = 2, geocoded = 1, errors = 1\<rparr>
   \<and> compute_stats [stop_at 38 (- 77) 1] = \<lparr>total = 1, geocoded = 1, errors = 0\<rparr>"
  using zero_coordinate_counts_as_absent
          [of "[stop_at 0 10 0, stop_at 38 (- 77) 1]" whole_map "stop_at 0 10 0" "[]" "[stop_at 38 (- 77) 1]"]
        zero_coordinate_counts_as_absent
          [of "[stop_at 38 (- 77) 1]" whole_map "stop_at 0 10 0" "[]" "[]"]
  by (simp add: stop_at_def addressesToGeocode_def geocodedAddresses_def compute_stats_def
        truthy_def insidePolygon_def whole_map_def)

text \<open>
  A record with a coordinate of 0 is not always put in the queue and counted as an
  error: the one record of \<open>equator_stop_no_text\<close> has latitude 0 and an empty address
  text; the queue of geocode-all is empty and the error count is 0.
\<close>

theorem zero_coordinate_counterexample:
  "map latitude (addresses equator_stop_no_text) = [Some 0]
   \<and> map address (addresses equator_stop_no_text) = [[]]
   \<and> addressesToGeocode (addresses equator_stop_no_text) = []
   \<and> compute_stats (addresses equator_stop_no_text) = \<lparr>total = 1, geocoded = 0, errors = 0\<rparr>"
  by (simp add: equator_stop_no_text_def equator_stop_def initial_state_def handleUpdateAddress_def
        stop_at_def show_nat_0 spread_def cell_patch_address_def orElse_def
        addressesToGeocode_def compute_stats_def truthy_def)

end
